theory Spec2Isabelle
  imports Main
begin

section \<open>Strings and the query-string encoder\<close>

text \<open>
  Strings are byte lists holding UTF-8 text. \<open>escape\<close> is the percent-encoding that
  \<open>querystring.stringify\<close> applies to keys and values: letters, digits and the marks
  \<open>- _ . ! ~ * ' ( )\<close> pass through, every other byte becomes \<open>%XX\<close> in upper-case hex.
\<close>

definition hex_digit :: "nat \<Rightarrow> char" where
  "hex_digit n = ''0123456789ABCDEF'' ! (n mod 16)"

definition unreserved :: "char \<Rightarrow> bool" where
  "unreserved c \<longleftrightarrow>
     c \<in> set (''ABCDEFGHIJKLMNOPQRSTUVWXYZabcdefghijklmnopqrstuvwxyz0123456789-_.!~*()'' @ [CHR 0x27])"

definition escape_char :: "char \<Rightarrow> string" where
  "escape_char c =
     (if unreserved c then [c]
      else [CHR ''%'', hex_digit (of_char c div 16), hex_digit (of_char c mod 16)])"

definition escape :: "string \<Rightarrow> string" where
  "escape s = concat (map escape_char s)"

text \<open>\<open>stringify\<close> of an object whose values are strings: \<open>k=v\<close> pairs joined by \<open>&\<close>.\<close>

fun stringify :: "(string \<times> string) list \<Rightarrow> string" where
  "stringify [] = []"
| "stringify [(k, v)] = escape k @ ''='' @ escape v"
| "stringify ((k, v) # kvs) = escape k @ ''='' @ escape v @ ''&'' @ stringify kvs"

text \<open>A port number in a template literal: its decimal digits.\<close>

fun decimal :: "nat \<Rightarrow> string" where
  "decimal n =
     (if n < 10 then [''0123456789'' ! n]
      else decimal (n div 10) @ [''0123456789'' ! (n mod 10)])"

declare decimal.simps [simp del]

section \<open>Data\<close>

text \<open>
  A \<open>Credentials\<close> bundle is opaque to this module; it is kept as the list of its fields.
\<close>

type_synonym credentials = "(string \<times> string) list"

text \<open>
  One entry of \<open>url.parse(u, true).query\<close>: a string, or an array of strings when the key
  is repeated. A key that is absent reads as \<open>undefined\<close>, here \<open>None\<close>.
\<close>

datatype qvalue = QString string | QArray "string list"

type_synonym query = "string \<rightharpoonup> qvalue"

text \<open>
  What a promise of this module is rejected with: a plain \<open>Error\<close> with its message, the
  module's own \<open>UserClosedWindowError\<close>, or whatever \<open>getToken\<close> of the OAuth client
  rejected with.
\<close>

datatype error = Error string | UserClosedWindowError | ExchangeFailed string

text \<open>
  The options object. A field reads \<open>None\<close> when it holds \<open>undefined\<close>, which the
  merged options can: \<open>Partial<>\<close> lets the caller pass a key with the value
  \<open>undefined\<close>, and the spread of the constructor copies it over the default.
\<close>

record ElectronGoogleOAuth2Options =
  successRedirectURL :: "string option"
  loopbackInterfaceRedirectionPort :: "nat option"
  refocusAfterSuccess :: "bool option"

text \<open>
  \<open>Partial<ElectronGoogleOAuth2Options>\<close>: a key is missing (\<open>None\<close>), or present
  with \<open>undefined\<close> (\<open>Some None\<close>), or present with a value (\<open>Some (Some v)\<close>).
\<close>

record PartialOptions =
  successRedirectURL_opt :: "string option option"
  loopbackInterfaceRedirectionPort_opt :: "nat option option"
  refocusAfterSuccess_opt :: "bool option option"

definition defaultElectronGoogleOAuth2Options :: ElectronGoogleOAuth2Options where
  "defaultElectronGoogleOAuth2Options =
     \<lparr>successRedirectURL = Some ''https://getstation.com/app-login-success/'',
      loopbackInterfaceRedirectionPort = Some 42813,
      refocusAfterSuccess = Some True\<rparr>"

text \<open>The default of the parameter \<open>options\<close>: the default options, every key present.\<close>

definition defaultPartial :: PartialOptions where
  "defaultPartial =
     \<lparr>successRedirectURL_opt = Some (successRedirectURL defaultElectronGoogleOAuth2Options),
      loopbackInterfaceRedirectionPort_opt =
        Some (loopbackInterfaceRedirectionPort defaultElectronGoogleOAuth2Options),
      refocusAfterSuccess_opt = Some (refocusAfterSuccess defaultElectronGoogleOAuth2Options)\<rparr>"

text \<open>
  The spread \<open>{ ...defaultElectronGoogleOAuth2Options, ...options }\<close>: every key that
  \<open>options\<close> has wins with whatever it holds, \<open>undefined\<close> too.
\<close>

definition merge_options :: "PartialOptions \<Rightarrow> ElectronGoogleOAuth2Options" where
  "merge_options p =
     \<lparr>successRedirectURL =
        (case successRedirectURL_opt p of
           None \<Rightarrow> successRedirectURL defaultElectronGoogleOAuth2Options | Some v \<Rightarrow> v),
      loopbackInterfaceRedirectionPort =
        (case loopbackInterfaceRedirectionPort_opt p of
           None \<Rightarrow> loopbackInterfaceRedirectionPort defaultElectronGoogleOAuth2Options
         | Some v \<Rightarrow> v),
      refocusAfterSuccess =
        (case refocusAfterSuccess_opt p of
           None \<Rightarrow> refocusAfterSuccess defaultElectronGoogleOAuth2Options | Some v \<Rightarrow> v)\<rparr>"

text \<open>
  The OAuth client of google-auth-library, as far as this module touches it: what it was
  constructed with, and its credential store, which \<open>setCredentials\<close> overwrites.
\<close>

record OAuth2Client =
  clientId :: string
  clientSecret :: string
  redirectUri :: string
  credentials :: credentials

definition setCredentials :: "credentials \<Rightarrow> OAuth2Client \<Rightarrow> OAuth2Client" where
  "setCredentials t c = c\<lparr>credentials := t\<rparr>"

text \<open>The argument object of the client's \<open>generateAuthUrl\<close>.\<close>

record auth_request =
  access_type :: string
  scope :: "string list"
  redirect_uri :: string

text \<open>
  Modelled from the spec: \<open>LoopbackRedirectServer\<close> (the module
  \<open>./LoopbackRedirectServer\<close> is imported but is not among the sources). Section 4.1:
  a listener is bound to its port when it is started; a request for the callback path
  resolves the pending wait with the full URL and begins the teardown; \<open>close\<close> releases
  the socket and settles a wait that is still pending as canceled.
\<close>

datatype socket = Bound | Closing | Released

datatype redirection = Pending | Reached string | Canceled

record LoopbackRedirectServer =
  port :: "nat option"
  callbackPath :: string
  successRedirect :: "string option"
  socket :: socket
  redirection :: redirection

text \<open>Modelled from the spec: the constructor of \<open>LoopbackRedirectServer\<close> (section 4.1, \<open>start\<close>).\<close>

definition new_LoopbackRedirectServer ::
  "nat option \<Rightarrow> string \<Rightarrow> string option \<Rightarrow> LoopbackRedirectServer" where
  "new_LoopbackRedirectServer p path target =
     \<lparr>port = p, callbackPath = path, successRedirect = target,
      socket = Bound, redirection = Pending\<rparr>"

text \<open>Modelled from the spec: \<open>LoopbackRedirectServer.close\<close> (section 4.1, \<open>close\<close>).\<close>

definition close :: "LoopbackRedirectServer \<Rightarrow> LoopbackRedirectServer" where
  "close l =
     l\<lparr>socket := (if socket l = Released then Released else Closing),
       redirection := (if redirection l = Pending then Canceled else redirection l)\<rparr>"

text \<open>
  Modelled from the spec: the request handler of \<open>LoopbackRedirectServer\<close> (section 4.1):
  the first request for the callback path resolves the wait and starts the teardown.
\<close>

definition reach :: "string \<Rightarrow> LoopbackRedirectServer \<Rightarrow> LoopbackRedirectServer" where
  "reach u l = l\<lparr>socket := Closing, redirection := Reached u\<rparr>"

text \<open>
  An attempt is one call of \<open>openAuthWindowAndGetTokens\<close>; it is suspended at one of the
  three awaits or settled:
  \<^item> \<open>AwaitClose n url\<close>: at \<open>await this.server.close()\<close>, for listener \<open>n\<close>;
  \<^item> \<open>AwaitRedirection n\<close>: at \<open>await this.server.waitForRedirection()\<close>;
  \<^item> \<open>AwaitToken c\<close>: in \<open>getToken(c)\<close> of the client;
  \<^item> \<open>Settled r\<close>: rejected with an error or fulfilled with the tokens.
\<close>

datatype attempt =
    AwaitClose nat string
  | AwaitRedirection nat
  | AwaitToken qvalue
  | Settled "error + credentials"

text \<open>
  The state: the store of string arrays (the caller's \<open>scopes\<close> array lives there), the
  fields of the \<open>ElectronGoogleOAuth2\<close> object, the listeners ever constructed, the
  attempts ever started, and what the object did to the outside: the events it emitted on
  \<open>'tokens'\<close>, the codes it passed to \<open>getToken\<close>, the URLs it opened, and how often it
  refocused the windows.
\<close>

record world =
  arrays :: "nat \<Rightarrow> string list"
  scopes :: nat
  options :: ElectronGoogleOAuth2Options
  oauth2Client :: OAuth2Client
  server :: "nat option"
  listeners :: "LoopbackRedirectServer list"
  attempts :: "attempt list"
  published :: "credentials list"
  exchanged :: "qvalue list"
  opened :: "string list"
  refocused :: nat

text \<open>
  The library functions the module calls and does not define: the query of
  \<open>url.parse(u, true)\<close> and the client's \<open>generateAuthUrl\<close>.
\<close>

record env =
  url_parse :: "string \<Rightarrow> query"
  client_generateAuthUrl :: "OAuth2Client \<Rightarrow> auth_request \<Rightarrow> string"

section \<open>The constructor\<close>

text \<open>\<open>if (!scopes.includes(x)) scopes.push(x)\<close>, on the array itself.\<close>

definition push_missing :: "string \<Rightarrow> string list \<Rightarrow> string list" where
  "push_missing x xs = (if x \<in> set xs then xs else xs @ [x])"

text \<open>
  The template literal \<open>http://127.0.0.1:${port}/callback\<close> of lines 72 and 88; a port
  that is \<open>undefined\<close> prints as the word.
\<close>

definition callback_uri :: "ElectronGoogleOAuth2Options \<Rightarrow> string" where
  "callback_uri opts =
     ''http://127.0.0.1:''
       @ (case loopbackInterfaceRedirectionPort opts of
            None \<Rightarrow> ''undefined'' | Some n \<Rightarrow> decimal n)
       @ ''/callback''"

text \<open>
  \<open>new ElectronGoogleOAuth2(clientId, clientSecret, scopes, options)\<close>: \<open>scopes\<close> is a
  reference \<open>a\<close> into the store, \<open>options\<close> is \<open>None\<close> when the argument is left out.
  The two pushes write to the array at \<open>a\<close>, and \<open>this.scopes\<close> is that same reference.
\<close>

definition constructor ::
  "(nat \<Rightarrow> string list) \<Rightarrow> string \<Rightarrow> string \<Rightarrow> nat \<Rightarrow> PartialOptions option \<Rightarrow> world" where
  "constructor store cid secret a popts =
     (let store1 = store(a := push_missing ''profile'' (store a));
          store2 = store1(a := push_missing ''email'' (store1 a));
          opts = merge_options (case popts of None \<Rightarrow> defaultPartial | Some p \<Rightarrow> p)
      in \<lparr>arrays = store2,
          scopes = a,
          options = opts,
          oauth2Client = \<lparr>clientId = cid, clientSecret = secret,
                          redirectUri = callback_uri opts, credentials = []\<rparr>,
          server = None,
          listeners = [],
          attempts = [],
          published = [],
          exchanged = [],
          opened = [],
          refocused = 0\<rparr>)"

section \<open>generateAuthUrl\<close>

definition base_auth_url :: "env \<Rightarrow> world \<Rightarrow> string" where
  "base_auth_url E w =
     client_generateAuthUrl E (oauth2Client w)
       \<lparr>access_type = ''offline'',
        scope = arrays w (scopes w),
        redirect_uri = callback_uri (options w)\<rparr>"

definition generateAuthUrl :: "env \<Rightarrow> world \<Rightarrow> bool \<Rightarrow> string" where
  "generateAuthUrl E w forceAddSession =
     (let url = base_auth_url E w
      in if forceAddSession
         then ''https://accounts.google.com/AddSession?'' @ stringify [(''continue'', url)]
         else url)"

section \<open>The captured redirect\<close>

text \<open>JavaScript truthiness of a query entry: \<open>undefined\<close> and the empty string are falsy.\<close>

fun truthy :: "qvalue option \<Rightarrow> bool" where
  "truthy None = False"
| "truthy (Some (QString s)) = (s \<noteq> [])"
| "truthy (Some (QArray xs)) = True"

fun comma_join :: "string list \<Rightarrow> string" where
  "comma_join [] = []"
| "comma_join [x] = x"
| "comma_join (x # y # ys) = x @ '','' @ comma_join (y # ys)"

text \<open>
  The message of \<open>new Error(v)\<close>: empty when \<open>v\<close> is \<open>undefined\<close>, otherwise \<open>String(v)\<close>
  (an array prints its elements joined by commas).
\<close>

fun message_of :: "qvalue option \<Rightarrow> string" where
  "message_of None = []"
| "message_of (Some (QString s)) = s"
| "message_of (Some (QArray xs)) = comma_join xs"

text \<open>
  Lines 139 to 143 and 151 of \<open>openAuthPageAndGetAuthorizationCode\<close>, on the parsed query:
  what the function throws, or the code it returns.
\<close>

definition extraction :: "query \<Rightarrow> error + qvalue" where
  "extraction q =
     (if truthy (q ''error'') then Inl (Error (message_of (q ''error_description'')))
      else (case q ''code'' of
              None \<Rightarrow> Inl (Error ''Unknown'')
            | Some c \<Rightarrow> if \<not> truthy (Some c) then Inl (Error ''Unknown'') else Inr c))"

section \<open>The flow\<close>

text \<open>
  Lines 125 to 131: construct the listener, keep it in \<open>this.server\<close>, open the page.
  The new listener's handle is its index in \<open>listeners\<close>.
\<close>

definition listen :: "string \<Rightarrow> world \<Rightarrow> world" where
  "listen url w =
     w\<lparr>server := Some (length (listeners w)),
       listeners := listeners w @
         [new_LoopbackRedirectServer (loopbackInterfaceRedirectionPort (options w))
            ''/callback'' (successRedirectURL (options w))],
       opened := opened w @ [url]\<rparr>"

text \<open>
  Modelled from the spec: what \<open>waitForRedirection\<close> of \<open>LoopbackRedirectServer\<close> is
  rejected with when the listener is closed under it (sections 4.1 and 4.3: a dedicated
  "user canceled" condition), taken to be the module's \<open>UserClosedWindowError\<close>. The await
  of line 133 throws it, nothing catches it, and the promise of the attempt is rejected
  with it.
\<close>

definition cancel :: "nat \<Rightarrow> attempt \<Rightarrow> attempt" where
  "cancel n a = (if a = AwaitRedirection n then Settled (Inl UserClosedWindowError) else a)"

text \<open>\<open>close()\<close> called on listener \<open>n\<close>, with the attempts that waited on it.\<close>

definition close_listener :: "nat \<Rightarrow> world \<Rightarrow> world" where
  "close_listener n w =
     (if n < length (listeners w)
      then w\<lparr>listeners := (listeners w)[n := close (listeners w ! n)],
             attempts := (if redirection (listeners w ! n) = Pending
                          then map (cancel n) (attempts w) else attempts w)\<rparr>
      else w)"

text \<open>
  A call of \<open>openAuthWindowAndGetTokens(forceAddSession)\<close>, up to its first await: with a
  listener in \<open>this.server\<close> it calls \<open>close()\<close> on it and waits (line 122); without one it
  goes on to line 125 at once and waits for the redirection (line 133).
\<close>

definition call :: "env \<Rightarrow> bool \<Rightarrow> world \<Rightarrow> world" where
  "call E forceAddSession w =
     (let url = generateAuthUrl E w forceAddSession
      in case server w of
           Some n \<Rightarrow> close_listener n (w\<lparr>attempts := attempts w @ [AwaitClose n url]\<rparr>)
         | None \<Rightarrow>
             (listen url w)\<lparr>attempts := attempts w @ [AwaitRedirection (length (listeners w))]\<rparr>)"

text \<open>Attempt \<open>i\<close> resumes after line 122: \<open>this.server = null\<close>, then lines 125 to 133.\<close>

definition after_close :: "nat \<Rightarrow> world \<Rightarrow> world" where
  "after_close i w =
     (case attempts w ! i of
        AwaitClose n url \<Rightarrow>
          (listen url (w\<lparr>server := None\<rparr>))
            \<lparr>attempts := (attempts w)[i := AwaitRedirection (length (listeners w))]\<rparr>
      | _ \<Rightarrow> w)"

definition awaits_close :: "nat \<Rightarrow> attempt \<Rightarrow> bool" where
  "awaits_close n a = (case a of AwaitClose m url \<Rightarrow> m = n | _ \<Rightarrow> False)"

text \<open>The attempts waiting for the close of listener \<open>n\<close> resume in the order of their calls.\<close>

definition resume_closed :: "nat \<Rightarrow> world \<Rightarrow> world" where
  "resume_closed n w =
     fold (\<lambda>i w. if awaits_close n (attempts w ! i) then after_close i w else w)
       [0..<length (attempts w)] w"

text \<open>
  Attempt \<open>i\<close> resumes after line 133 with the URL \<open>u\<close>: lines 136 to 151, and for a code
  the callback of line 162, which hands the code to \<open>getToken\<close>.
\<close>

definition after_redirection :: "env \<Rightarrow> string \<Rightarrow> nat \<Rightarrow> world \<Rightarrow> world" where
  "after_redirection E u i w =
     (case extraction (url_parse E u) of
        Inl e \<Rightarrow> w\<lparr>server := None, attempts := (attempts w)[i := Settled (Inl e)]\<rparr>
      | Inr c \<Rightarrow>
          w\<lparr>server := None,
            refocused := (if refocusAfterSuccess (options w) = Some True then Suc (refocused w)
                          else refocused w),
            exchanged := exchanged w @ [c],
            attempts := (attempts w)[i := AwaitToken c]\<rparr>)"

definition resume_redirected :: "env \<Rightarrow> nat \<Rightarrow> string \<Rightarrow> world \<Rightarrow> world" where
  "resume_redirected E n u w =
     fold (\<lambda>i w. if attempts w ! i = AwaitRedirection n then after_redirection E u i w else w)
       [0..<length (attempts w)] w"

text \<open>
  What happens to the object, one event at a time; the continuations of the attempts that
  an event wakes run with it:
  \<^item> \<open>Call f\<close>: the application calls \<open>openAuthWindowAndGetTokens(f)\<close>;
  \<^item> \<open>Closed n\<close>: the socket of listener \<open>n\<close> is released and its \<open>close()\<close> promises fulfil;
  \<^item> \<open>Request n u\<close>: a request for the callback path, with full URL \<open>u\<close>, reaches listener \<open>n\<close>;
  \<^item> \<open>ClientTokens t\<close>: the OAuth client emits \<open>'tokens'\<close>, which the handler installed by
    the constructor (lines 74 to 76) emits again on the object;
  \<^item> \<open>TokenResponse i r\<close>: \<open>getToken\<close> of attempt \<open>i\<close> settles, rejected (\<open>Inl\<close>) or with
    the tokens (\<open>Inr\<close>), and lines 165 to 168 run.
  An event that cannot happen in the state gives \<open>None\<close>.
\<close>

datatype event =
    Call bool
  | Closed nat
  | Request nat string
  | ClientTokens credentials
  | TokenResponse nat "string + credentials"

fun step :: "env \<Rightarrow> event \<Rightarrow> world \<Rightarrow> world option" where
  "step E (Call f) w = Some (call E f w)"
| "step E (Closed n) w =
     (if n < length (listeners w) \<and> socket (listeners w ! n) \<noteq> Bound
      then Some (resume_closed n
                   (w\<lparr>listeners := (listeners w)[n := (listeners w ! n)\<lparr>socket := Released\<rparr>]\<rparr>))
      else None)"
| "step E (Request n u) w =
     (if n < length (listeners w) \<and> socket (listeners w ! n) = Bound
         \<and> redirection (listeners w ! n) = Pending
      then Some (resume_redirected E n u
                   (w\<lparr>listeners := (listeners w)[n := reach u (listeners w ! n)]\<rparr>))
      else None)"
| "step E (ClientTokens t) w = Some (w\<lparr>published := published w @ [t]\<rparr>)"
| "step E (TokenResponse i r) w =
     (if i < length (attempts w)
      then (case attempts w ! i of
              AwaitToken c \<Rightarrow>
                (case r of
                   Inl e \<Rightarrow> Some (w\<lparr>attempts := (attempts w)[i := Settled (Inl (ExchangeFailed e))]\<rparr>)
                 | Inr t \<Rightarrow>
                     Some (w\<lparr>oauth2Client := setCredentials t (oauth2Client w),
                             attempts := (attempts w)[i := Settled (Inr t)]\<rparr>))
            | _ \<Rightarrow> None)
      else None)"

fun run :: "env \<Rightarrow> event list \<Rightarrow> world \<Rightarrow> world option" where
  "run E [] w = Some w"
| "run E (e # es) w = (case step E e w of None \<Rightarrow> None | Some w' \<Rightarrow> run E es w')"

text \<open>\<open>setTokens(tokens)\<close>.\<close>

definition setTokens :: "credentials \<Rightarrow> world \<Rightarrow> world" where
  "setTokens t w = w\<lparr>oauth2Client := setCredentials t (oauth2Client w)\<rparr>"

text \<open>The listeners that hold the port: constructed, and \<open>close()\<close> never called on them.\<close>

definition bound_listeners :: "world \<Rightarrow> nat list" where
  "bound_listeners w =
     filter (\<lambda>n. socket (listeners w ! n) = Bound) [0..<length (listeners w)]"

text \<open>
  A successful \<open>getToken\<close> of attempt \<open>i\<close>, as this module sees it: the client of
  google-auth-library emits \<open>'tokens'\<close> with the bundle it received, then fulfils its
  promise with that bundle. The module has no \<open>emit\<close> of its own in lines 159 to 170; its
  subscribers hear the client's event through the handler of lines 74 to 76.
\<close>

definition getToken_fulfilled :: "nat \<Rightarrow> credentials \<Rightarrow> event list" where
  "getToken_fulfilled i t = [ClientTokens t, TokenResponse i (Inr t)]"

section \<open>A concrete object\<close>

text \<open>
  An object constructed with the scopes \<open>["calendar"]\<close> and the default options, and two
  redirects to its callback with the queries \<open>url.parse\<close> reads from them.
\<close>

definition code_redirect :: string where
  "code_redirect = ''http://127.0.0.1:42813/callback?code=XYZ''"

definition denied_redirect :: string where
  "denied_redirect = ''http://127.0.0.1:42813/callback?error=access_denied''"

definition example_env :: env where
  "example_env =
     \<lparr>url_parse = (\<lambda>u. if u = code_redirect then [''code'' \<mapsto> QString ''XYZ'']
                        else if u = denied_redirect then [''error'' \<mapsto> QString ''access_denied'']
                        else Map.empty),
      client_generateAuthUrl = (\<lambda>c r. ''https://accounts.google.com/o/oauth2/v2/auth?scope=''
                                        @ comma_join (scope r))\<rparr>"

definition example_world :: world where
  "example_world = constructor (\<lambda>_. [''calendar'']) ''id'' ''secret'' 0 None"

definition example_tokens :: credentials where
  "example_tokens = [(''access_token'', ''a''), (''refresh_token'', ''r'')]"

text \<open>
  A client whose \<open>generateAuthUrl\<close> writes out the three fields it was given, so that
  they can be read off the URL.
\<close>

definition echo_client :: env where
  "echo_client =
     \<lparr>url_parse = (\<lambda>u. Map.empty),
      client_generateAuthUrl =
        (\<lambda>c r. ''https://a/b?t='' @ access_type r @ ''&s='' @ comma_join (scope r)
                 @ ''&r='' @ redirect_uri r)\<rparr>"

section \<open>Scopes\<close>

lemma constructor_arrays:
  "arrays (constructor store cid secret a popts) =
     store(a := push_missing ''email'' (push_missing ''profile'' (store a)))"
  by (simp add: constructor_def Let_def)

lemma constructor_scopes: "scopes (constructor store cid secret a popts) = a"
  by (simp add: constructor_def Let_def)

text \<open>
  C5: whatever array the caller passes, the scopes of the constructed object contain
  \<open>profile\<close> and \<open>email\<close>; the caller's entries come first, in their order, and the
  missing ones are appended after them (\<open>profile\<close> before \<open>email\<close>); an array that has
  both already is left as it is.
\<close>

theorem constructor_normalizes_scopes:
  "''profile'' \<in> set (arrays (constructor store cid secret a popts)
                         (scopes (constructor store cid secret a popts)))
   \<and> ''email'' \<in> set (arrays (constructor store cid secret a popts)
                         (scopes (constructor store cid secret a popts)))
   \<and> arrays (constructor store cid secret a popts) (scopes (constructor store cid secret a popts))
       = store a @ (if ''profile'' \<in> set (store a) then [] else [''profile''])
                 @ (if ''email'' \<in> set (store a) then [] else [''email''])
   \<and> (''profile'' \<notin> set (store a) \<and> ''email'' \<notin> set (store a) \<longrightarrow>
        arrays (constructor store cid secret a popts) (scopes (constructor store cid secret a popts))
          = store a @ [''profile'', ''email''])
   \<and> (''profile'' \<in> set (store a) \<and> ''email'' \<in> set (store a) \<longrightarrow>
        arrays (constructor store cid secret a popts) (scopes (constructor store cid secret a popts))
          = store a)"
  by (simp add: constructor_arrays constructor_scopes push_missing_def)

theorem constructor_normalizes_scopes_witness:
  "''profile'' \<notin> set [''calendar''] \<and> ''email'' \<notin> set [''calendar'']
   \<and> arrays (constructor (\<lambda>_. [''calendar'']) ''id'' ''secret'' 0 None)
        (scopes (constructor (\<lambda>_. [''calendar'']) ''id'' ''secret'' 0 None))
      = [''calendar'', ''profile'', ''email'']"
  using constructor_normalizes_scopes [of "\<lambda>_. [''calendar'']" "''id''" "''secret''" 0 None]
  by simp

text \<open>
  C10: the constructor writes to the caller's array. \<open>this.scopes\<close> is the reference it was
  given, no other array of the store changes, and when \<open>profile\<close> or \<open>email\<close> was missing
  the array at the caller's reference has grown: it holds both, after the old entries.
\<close>

theorem constructor_mutates_argument:
  "scopes (constructor store cid secret a popts) = a
   \<and> (\<forall>b. b \<noteq> a \<longrightarrow> arrays (constructor store cid secret a popts) b = store b)
   \<and> (''profile'' \<notin> set (store a) \<or> ''email'' \<notin> set (store a) \<longrightarrow>
        arrays (constructor store cid secret a popts) a \<noteq> store a
        \<and> ''profile'' \<in> set (arrays (constructor store cid secret a popts) a)
        \<and> ''email'' \<in> set (arrays (constructor store cid secret a popts) a)
        \<and> take (length (store a)) (arrays (constructor store cid secret a popts) a) = store a
        \<and> length (store a) < length (arrays (constructor store cid secret a popts) a))"
  by (auto simp: constructor_arrays constructor_scopes push_missing_def)

theorem constructor_mutates_argument_witness:
  "''profile'' \<notin> set [''calendar'']
   \<and> arrays (constructor ((\<lambda>_. [])(7 := [''calendar''])) ''id'' ''secret'' 7 None) 7
      = [''calendar'', ''profile'', ''email'']
   \<and> scopes (constructor ((\<lambda>_. [])(7 := [''calendar''])) ''id'' ''secret'' 7 None) = 7"
  using constructor_mutates_argument [of "(\<lambda>_. [])(7 := [''calendar''])" "''id''" "''secret''" 7 None]
  by (simp add: constructor_arrays push_missing_def)

section \<open>The authorization URL\<close>

lemma escape_continue: "escape ''continue'' = ''continue''"
  by (simp add: escape_def escape_char_def unreserved_def)

lemma of_char_div_16: "(of_char c :: nat) div 16 mod 16 = of_char c div 16"
proof -
  have "(of_char c :: nat) < 256"
    by (cases c) (simp add: of_char_of)
  then have "(of_char c :: nat) div 16 < 16"
    by (simp add: less_mult_imp_div_less)
  then show ?thesis by simp
qed

text \<open>The encoding, written out byte by byte.\<close>

lemma escape_spelled:
  "escape s = concat (map (\<lambda>c.
      if c \<in> set (''ABCDEFGHIJKLMNOPQRSTUVWXYZabcdefghijklmnopqrstuvwxyz0123456789-_.!~*()''
                   @ [CHR 0x27])
      then [c]
      else [CHR ''%'', ''0123456789ABCDEF'' ! (of_char c div 16),
            ''0123456789ABCDEF'' ! (of_char c mod 16)]) s)"
  unfolding escape_def escape_char_def unreserved_def hex_digit_def
  by (simp only: of_char_div_16 mod_mod_trivial)

lemma decimal_default_port: "decimal 42813 = ''42813''"
  by (simp add: decimal.simps)

lemma echo_client_base:
  "generateAuthUrl echo_client example_world False
     = ''https://a/b?t=offline&s=calendar,profile,email&r=http://127.0.0.1:42813/callback''"
  by (simp add: generateAuthUrl_def base_auth_url_def echo_client_def example_world_def
      constructor_def push_missing_def callback_uri_def merge_options_def defaultPartial_def
      defaultElectronGoogleOAuth2Options_def decimal_default_port Let_def)

lemma echo_client_add_session:
  "generateAuthUrl echo_client example_world True
     = ''https://accounts.google.com/AddSession?continue=https%3A%2F%2Fa%2Fb%3Ft%3Doffline%26s%3Dcalendar%2Cprofile%2Cemail%26r%3Dhttp%3A%2F%2F127.0.0.1%3A42813%2Fcallback''"
  by (simp add: generateAuthUrl_def base_auth_url_def echo_client_def example_world_def
      constructor_def push_missing_def callback_uri_def merge_options_def defaultPartial_def
      defaultElectronGoogleOAuth2Options_def decimal_default_port Let_def
      escape_def escape_char_def unreserved_def hex_digit_def)

text \<open>
  C6: without \<open>forceAddSession\<close>, \<open>generateAuthUrl\<close> returns what the client's
  \<open>generateAuthUrl\<close> returns for offline access, the scopes of the object and the
  loopback redirect URI, unmodified. With \<open>forceAddSession\<close> it returns
  \<open>https://accounts.google.com/AddSession?continue=\<close> followed by that URL
  percent-encoded: letters, digits and \<open>- _ . ! ~ * ' ( )\<close> are kept, every other byte
  is \<open>%\<close> and its two upper-case hex digits. On the object with scopes
  \<open>["calendar"]\<close> and the default port both URLs are written out.
\<close>

theorem generateAuthUrl_forms:
  "generateAuthUrl E w False
     = client_generateAuthUrl E (oauth2Client w)
         \<lparr>access_type = ''offline'',
          scope = arrays w (scopes w),
          redirect_uri =
            ''http://127.0.0.1:''
              @ (case loopbackInterfaceRedirectionPort (options w) of
                   None \<Rightarrow> ''undefined'' | Some n \<Rightarrow> decimal n)
              @ ''/callback''\<rparr>
   \<and> generateAuthUrl E w True
     = ''https://accounts.google.com/AddSession?continue=''
         @ concat (map (\<lambda>c.
             if c \<in> set (''ABCDEFGHIJKLMNOPQRSTUVWXYZabcdefghijklmnopqrstuvwxyz0123456789-_.!~*()''
                          @ [CHR 0x27])
             then [c]
             else [CHR ''%'', ''0123456789ABCDEF'' ! (of_char c div 16),
                   ''0123456789ABCDEF'' ! (of_char c mod 16)])
           (generateAuthUrl E w False))
   \<and> generateAuthUrl echo_client example_world False
     = ''https://a/b?t=offline&s=calendar,profile,email&r=http://127.0.0.1:42813/callback''
   \<and> generateAuthUrl echo_client example_world True
     = ''https://accounts.google.com/AddSession?continue=https%3A%2F%2Fa%2Fb%3Ft%3Doffline%26s%3Dcalendar%2Cprofile%2Cemail%26r%3Dhttp%3A%2F%2F127.0.0.1%3A42813%2Fcallback''"
proof -
  have base: "generateAuthUrl E w False = base_auth_url E w"
    by (simp add: generateAuthUrl_def Let_def)
  have forced: "generateAuthUrl E w True
      = ''https://accounts.google.com/AddSession?continue='' @ escape (base_auth_url E w)"
    by (simp add: generateAuthUrl_def Let_def escape_continue)
  show ?thesis
    unfolding echo_client_base echo_client_add_session
    by (simp only: forced base escape_spelled [symmetric])
       (simp add: base_auth_url_def callback_uri_def)
qed

section \<open>Seeding credentials\<close>

text \<open>
  C9: after \<open>setTokens(bundle)\<close> the credentials of the client are that bundle; nothing is
  published, no exchange is started, and the attempts and listeners are untouched.
\<close>

theorem setTokens_stores_bundle:
  "credentials (oauth2Client (setTokens t w)) = t
   \<and> published (setTokens t w) = published w
   \<and> exchanged (setTokens t w) = exchanged w
   \<and> attempts (setTokens t w) = attempts w
   \<and> listeners (setTokens t w) = listeners w
   \<and> server (setTokens t w) = server w"
  by (simp add: setTokens_def setCredentials_def)

section \<open>Reading the redirect\<close>

text \<open>
  C2 as the spec states it fails twice. A redirect with \<open>error=access_denied\<close> and no
  \<open>error_description\<close> is rejected with an empty message, not with \<open>access_denied\<close>; and
  an \<open>error\<close> parameter that is empty is falsy, so a code beside it is returned.
\<close>

theorem error_without_description_counterexample:
  "extraction [''error'' \<mapsto> QString ''access_denied''] = Inl (Error [])
   \<and> extraction [''error'' \<mapsto> QString ''access_denied''] \<noteq> Inl (Error ''access_denied'')
   \<and> extraction [''error'' \<mapsto> QString [], ''code'' \<mapsto> QString ''ABC123'']
       = Inr (QString ''ABC123'')"
  by (simp add: extraction_def)

text \<open>
  C2, amended: when the query has a non-empty \<open>error\<close> parameter, the outcome is an
  \<open>Error\<close> whose message is the \<open>error_description\<close> value, and the empty message when
  there is no \<open>error_description\<close>; a \<open>code\<close> parameter beside it changes nothing.
\<close>

theorem extraction_error:
  "truthy (q ''error'') \<Longrightarrow>
     extraction q = Inl (Error (message_of (q ''error_description'')))
     \<and> (\<forall>d. q ''error_description'' = Some (QString d) \<longrightarrow> extraction q = Inl (Error d))
     \<and> (q ''error_description'' = None \<longrightarrow> extraction q = Inl (Error []))"
  by (simp add: extraction_def)

theorem extraction_error_witness:
  "truthy ([''error'' \<mapsto> QString ''access_denied'',
            ''error_description'' \<mapsto> QString ''User denied'',
            ''code'' \<mapsto> QString ''ABC123''] ''error'')
   \<and> extraction [''error'' \<mapsto> QString ''access_denied'',
                  ''error_description'' \<mapsto> QString ''User denied'',
                  ''code'' \<mapsto> QString ''ABC123''] = Inl (Error ''User denied'')"
  using extraction_error [of "[''error'' \<mapsto> QString ''access_denied'',
                  ''error_description'' \<mapsto> QString ''User denied'',
                  ''code'' \<mapsto> QString ''ABC123'']"]
  by simp




section \<open>Waking the attempts\<close>

lemma fold_resume_frame:
  assumes "\<And>i w. f (g i w) = f w"
  shows "f (fold (\<lambda>i w. if P i w then g i w else w) js w) = f w"
  by (induction js arbitrary: w) (simp_all add: assms)

lemma after_redirection_attempts:
  "attempts (after_redirection E u i w) =
     (attempts w)[i := (case extraction (url_parse E u) of
                          Inl e \<Rightarrow> Settled (Inl e) | Inr c \<Rightarrow> AwaitToken c)]"
  by (simp add: after_redirection_def split: sum.splits)

lemma after_redirection_frame:
  "published (after_redirection E u i w) = published w"
  "oauth2Client (after_redirection E u i w) = oauth2Client w"
  "listeners (after_redirection E u i w) = listeners w"
  by (simp_all add: after_redirection_def split: sum.splits)

lemma after_redirection_no_exchange:
  "extraction (url_parse E u) = Inl e \<Longrightarrow>
     exchanged (after_redirection E u i w) = exchanged w"
  by (simp add: after_redirection_def)

lemma resume_redirected_frame:
  "published (resume_redirected E n u w) = published w"
  "oauth2Client (resume_redirected E n u w) = oauth2Client w"
  "listeners (resume_redirected E n u w) = listeners w"
  unfolding resume_redirected_def
  by (rule fold_resume_frame, simp add: after_redirection_frame)+

lemma resume_redirected_no_exchange:
  "extraction (url_parse E u) = Inl e \<Longrightarrow>
     exchanged (resume_redirected E n u w) = exchanged w"
  unfolding resume_redirected_def
  by (rule fold_resume_frame) (simp add: after_redirection_no_exchange)

lemma fold_redirected_attempts:
  assumes "distinct js" "\<forall>j\<in>set js. j < length (attempts w)"
  shows "attempts (fold (\<lambda>i w. if attempts w ! i = AwaitRedirection n
                                then after_redirection E u i w else w) js w)
         = map (\<lambda>j. if j \<in> set js \<and> attempts w ! j = AwaitRedirection n
                     then (case extraction (url_parse E u) of
                             Inl e \<Rightarrow> Settled (Inl e) | Inr c \<Rightarrow> AwaitToken c)
                     else attempts w ! j) [0..<length (attempts w)]"
  using assms
proof (induction js arbitrary: w)
  case Nil
  then show ?case by (simp add: map_nth)
next
  case (Cons k js)
  define r where "r = (case extraction (url_parse E u) of
                         Inl e \<Rightarrow> Settled (Inl e) | Inr c \<Rightarrow> AwaitToken c)"
  define w1 where "w1 = (if attempts w ! k = AwaitRedirection n
                         then after_redirection E u k w else w)"
  have k: "k < length (attempts w)" "k \<notin> set js" "distinct js"
    using Cons.prems by auto
  have len: "length (attempts w1) = length (attempts w)"
    by (simp add: w1_def after_redirection_attempts)
  have other: "attempts w1 ! j = attempts w ! j" if "j \<noteq> k" for j
    using that by (simp add: w1_def after_redirection_attempts)
  have at_k: "attempts w1 ! k = (if attempts w ! k = AwaitRedirection n then r else attempts w ! k)"
    using k(1) by (simp add: w1_def r_def after_redirection_attempts)
  have "\<forall>j\<in>set js. j < length (attempts w1)"
    using Cons.prems len by auto
  from Cons.IH [OF k(3) this]
  have IH: "attempts (fold (\<lambda>i w. if attempts w ! i = AwaitRedirection n
                                then after_redirection E u i w else w) js w1)
         = map (\<lambda>j. if j \<in> set js \<and> attempts w1 ! j = AwaitRedirection n
                     then r else attempts w1 ! j) [0..<length (attempts w)]"
    by (simp add: r_def len)
  have "map (\<lambda>j. if j \<in> set js \<and> attempts w1 ! j = AwaitRedirection n
                     then r else attempts w1 ! j) [0..<length (attempts w)]
      = map (\<lambda>j. if j \<in> set (k # js) \<and> attempts w ! j = AwaitRedirection n
                     then r else attempts w ! j) [0..<length (attempts w)]"
  proof (rule map_cong [OF refl])
    fix j assume "j \<in> set [0..<length (attempts w)]"
    show "(if j \<in> set js \<and> attempts w1 ! j = AwaitRedirection n then r else attempts w1 ! j)
        = (if j \<in> set (k # js) \<and> attempts w ! j = AwaitRedirection n then r else attempts w ! j)"
    proof (cases "j = k")
      case True
      then show ?thesis using k(2) at_k by simp
    next
      case False
      then show ?thesis using other by simp
    qed
  qed
  with IH show ?case
    by (simp add: w1_def r_def)
qed

lemma resume_redirected_attempts:
  "attempts (resume_redirected E n u w)
     = map (\<lambda>a. if a = AwaitRedirection n
                 then (case extraction (url_parse E u) of
                         Inl e \<Rightarrow> Settled (Inl e) | Inr c \<Rightarrow> AwaitToken c)
                 else a) (attempts w)"
  unfolding resume_redirected_def
  by (subst fold_redirected_attempts) (auto intro!: nth_equalityI)

text \<open>
  Nothing but the client's own \<open>'tokens'\<close> event reaches the subscribers: every other
  event leaves the published list as it was.
\<close>

lemma after_close_published: "published (after_close i w) = published w"
  by (simp add: after_close_def listen_def split: attempt.splits)

lemma resume_closed_published: "published (resume_closed n w) = published w"
  unfolding resume_closed_def
  by (rule fold_resume_frame) (simp add: after_close_published)

lemma call_published: "published (call E f w) = published w"
  by (simp add: call_def close_listener_def listen_def Let_def split: option.splits)

lemma step_published:
  "step E e w = Some w' \<Longrightarrow>
     published w' = published w @ (case e of ClientTokens t \<Rightarrow> [t] | _ \<Rightarrow> [])"
  by (cases e)
    (auto simp: call_published resume_closed_published resume_redirected_frame
      split: if_splits attempt.splits sum.splits)

section \<open>A redirect that carries an error\<close>

text \<open>
  C8 as the spec states it fails on the redirect \<open>...?error=access_denied\<close>: the attempt
  is rejected, but with an \<open>Error\<close> whose message is empty, so the reason does not carry
  \<open>access_denied\<close>.
\<close>

theorem denied_flow_counterexample:
  "map_option attempts (run example_env [Call False, Request 0 denied_redirect] example_world)
     = Some [Settled (Inl (Error []))]"
  by (simp add: example_env_def example_world_def constructor_def call_def listen_def
      new_LoopbackRedirectServer_def reach_def resume_redirected_def after_redirection_def
      extraction_def denied_redirect_def code_redirect_def Let_def)

text \<open>
  C8, amended: when the redirect that an attempt waits for arrives with a non-empty
  \<open>error\<close> parameter, the attempt is rejected with an \<open>Error\<close> whose message is the
  \<open>error_description\<close> value (empty when there is none); no code is handed to
  \<open>getToken\<close>, nothing is emitted on \<open>'tokens'\<close>, and the credentials of the client stay
  as they were.
\<close>

theorem denied_flow:
  assumes "n < length (listeners w)" and "socket (listeners w ! n) = Bound"
    and "redirection (listeners w ! n) = Pending"
    and "i < length (attempts w)" and "attempts w ! i = AwaitRedirection n"
    and "truthy (url_parse E u ''error'')"
  shows "\<exists>w'. step E (Request n u) w = Some w'
           \<and> attempts w' ! i
               = Settled (Inl (Error (message_of (url_parse E u ''error_description''))))
           \<and> exchanged w' = exchanged w
           \<and> published w' = published w
           \<and> credentials (oauth2Client w') = credentials (oauth2Client w)"
proof -
  have ex: "extraction (url_parse E u)
              = Inl (Error (message_of (url_parse E u ''error_description'')))"
    using assms(6) by (simp add: extraction_def)
  show ?thesis
    using assms(1-5)
    by (simp add: resume_redirected_attempts resume_redirected_frame
        resume_redirected_no_exchange [OF ex] ex)
qed

theorem denied_flow_witness:
  "map_option (\<lambda>w. (attempts w ! 0, exchanged w, published w, credentials (oauth2Client w)))
     (step example_env (Request 0 denied_redirect) (call example_env False example_world))
   = Some (Settled (Inl (Error [])), [], [], [])"
  using denied_flow [of 0 "call example_env False example_world" 0 example_env denied_redirect]
  by (simp add: example_env_def example_world_def constructor_def call_def listen_def
      new_LoopbackRedirectServer_def denied_redirect_def code_redirect_def Let_def)

section \<open>A redirect that carries a code\<close>

text \<open>
  C7: when the redirect that an attempt waits for carries a code and \<open>getToken\<close> is
  fulfilled with a bundle, the bundle becomes the credentials of the client, the attempt
  is fulfilled with it, and it is emitted on \<open>'tokens'\<close> once: the list of published
  events grows by exactly that bundle.
\<close>

theorem completed_flow:
  assumes "n < length (listeners w)" and "socket (listeners w ! n) = Bound"
    and "redirection (listeners w ! n) = Pending"
    and "i < length (attempts w)" and "attempts w ! i = AwaitRedirection n"
    and "extraction (url_parse E u) = Inr c"
  shows "\<exists>w'. run E (Request n u # getToken_fulfilled i t) w = Some w'
           \<and> credentials (oauth2Client w') = t
           \<and> attempts w' ! i = Settled (Inr t)
           \<and> published w' = published w @ [t]"
  using assms
  by (simp add: getToken_fulfilled_def resume_redirected_attempts resume_redirected_frame
      setCredentials_def)

theorem completed_flow_witness:
  "map_option (\<lambda>w. (credentials (oauth2Client w), attempts w ! 0, published w))
     (run example_env (Request 0 code_redirect # getToken_fulfilled 0 example_tokens)
        (call example_env False example_world))
   = Some (example_tokens, Settled (Inr example_tokens), [example_tokens])"
  using completed_flow [of 0 "call example_env False example_world" 0 example_env
      code_redirect "QString ''XYZ''" example_tokens]
  by (simp add: example_env_def example_world_def constructor_def call_def listen_def
      new_LoopbackRedirectServer_def extraction_def code_redirect_def Let_def)

section \<open>Closing a listener under a pending attempt\<close>

text \<open>
  C4: when \<open>close()\<close> is called on a listener whose redirect is still pending, the attempt
  waiting on it is settled at once, rejected with \<open>UserClosedWindowError\<close>; a new call of
  \<open>openAuthWindowAndGetTokens\<close> while that listener is in \<open>this.server\<close> does so. The
  rejection is neither a plain \<open>Error\<close> (which the denied and the unknown outcome are)
  nor a failure of the exchange.
\<close>

theorem closed_listener_cancels_attempt:
  assumes "n < length (listeners w)" and "redirection (listeners w ! n) = Pending"
    and "i < length (attempts w)" and "attempts w ! i = AwaitRedirection n"
  shows "attempts (close_listener n w) ! i = Settled (Inl UserClosedWindowError)
         \<and> (server w = Some n \<longrightarrow>
              (\<exists>w'. step E (Call f) w = Some w'
                 \<and> attempts w' ! i = Settled (Inl UserClosedWindowError)))
         \<and> (\<forall>m. UserClosedWindowError \<noteq> Error m \<and> UserClosedWindowError \<noteq> ExchangeFailed m)"
  using assms
  by (simp add: close_listener_def call_def cancel_def nth_append)

theorem closed_listener_cancels_attempt_witness:
  "server (call example_env False example_world) = Some 0
   \<and> map_option (\<lambda>w. attempts w ! 0)
        (step example_env (Call True) (call example_env False example_world))
     = Some (Settled (Inl UserClosedWindowError))"
  using closed_listener_cancels_attempt
    [of 0 "call example_env False example_world" 0 example_env True]
  by (simp add: example_world_def constructor_def call_def listen_def
      new_LoopbackRedirectServer_def Let_def)

section \<open>Calls that overlap\<close>

lemma call_closes_before_listening:
  "server w = Some n \<Longrightarrow> n < length (listeners w) \<Longrightarrow>
     length (listeners (call E f w)) = length (listeners w)
     \<and> socket (listeners (call E f w) ! n) \<noteq> Bound
     \<and> step E (Closed n) (call E f w) \<noteq> None"
  by (simp add: call_def close_listener_def close_def)

text \<open>
  C1 does not hold when calls overlap. Three calls in a row on a fresh object: the first
  binds listener 0; the second and the third both find it in \<open>this.server\<close> and both
  wait for its \<open>close()\<close>. When the close is done the second call binds listener 1, and
  the third sets \<open>this.server\<close> to \<open>null\<close> and binds listener 2. Listener 1 was never
  closed: two listeners hold the port, and the attempt of the second call still waits on
  the one that \<open>this.server\<close> has forgotten.
\<close>

theorem overlapping_calls_leave_two_listeners:
  "map_option (\<lambda>w. (bound_listeners w, server w, attempts w))
     (run example_env [Call False, Call False, Call False, Closed 0] example_world)
   = Some ([1, 2], Some 2,
           [Settled (Inl UserClosedWindowError), AwaitRedirection 1, AwaitRedirection 2])"
  by (simp add: example_world_def constructor_def call_def listen_def close_listener_def
      close_def cancel_def new_LoopbackRedirectServer_def resume_closed_def after_close_def
      awaits_close_def bound_listeners_def Let_def)

end
